theory Spec2Isabelle
  imports Complex_Main
begin

section \<open>Python numbers and exceptions\<close>

text \<open>
  The calculator core of \<^verbatim>\<open>app.py\<close> works on Python numbers. Counts (months, existing
  properties, iteration budget) are Python integers and are modelled as \<open>int\<close>. Amounts,
  rates and payments are doubles and are modelled as reals: every operation is exact, the
  rounding of IEEE-754 is not represented. What follows from that:
  \<^item> a raised exception is a value, \<^verbatim>\<open>ZeroDivisionError\<close> of a division or a negative
    power of zero, \<^verbatim>\<open>OverflowError\<close> of a power beyond the range of doubles;
  \<^item> the constants 0.55 and 0.30 of \<^verbatim>\<open>calc_max_loan\<close>, which are compared with inputs,
    are the doubles they denote, as exact fractions;
  \<^item> of the amortization engine and of the loan eligibility, a statement about all inputs is
    made only where it survives rounding (it rests on signs, on comparisons and on
    rounding being monotone); where the code's result depends on the
    rounding itself (absorption of a tiny rate in \<^verbatim>\<open>1 + r\<close>, cancellation in
    \<^verbatim>\<open>(1 + r)**n - 1\<close>), the exact statement is kept as a lemma marked as exact
    arithmetic, and nothing is claimed of the doubles.
\<close>

datatype py_error = ZeroDivisionError | OverflowError

text \<open>True division \<^verbatim>\<open>a / b\<close>: raises on a zero divisor.\<close>

definition py_div :: "real \<Rightarrow> real \<Rightarrow> py_error + real" where
  "py_div a b = (if b = 0 then Inl ZeroDivisionError else Inr (a / b))"

text \<open>\<^verbatim>\<open>int(x)\<close> on a float truncates towards zero.\<close>

definition py_int :: "real \<Rightarrow> int" where
  "py_int x = (if x < 0 then \<lceil>x\<rceil> else \<lfloor>x\<rfloor>)"

text \<open>
  The least magnitude that rounds to infinity instead of a double: \<open>2^1024 - 2^970\<close>,
  half a unit in the last place above the largest double \<open>(2^53 - 1) * 2^971\<close>.
\<close>

definition DBL_OVERFLOW :: real where
  "DBL_OVERFLOW = (2 ^ 54 - 1) * 2 ^ 970"

text \<open>
  \<^verbatim>\<open>b ** e\<close> for a float base and an integer exponent: a negative exponent is the
  reciprocal of the positive power and raises \<^verbatim>\<open>ZeroDivisionError\<close> on base zero;
  \<^verbatim>\<open>0.0 ** 0\<close> is 1; a power that leaves the range of doubles raises
  \<^verbatim>\<open>OverflowError\<close>.
\<close>

definition py_pow :: "real \<Rightarrow> int \<Rightarrow> py_error + real" where
  "py_pow b e =
     (if 0 \<le> e then
        (if DBL_OVERFLOW \<le> \<bar>b ^ nat e\<bar> then Inl OverflowError else Inr (b ^ nat e))
      else if b = 0 then Inl ZeroDivisionError
      else if DBL_OVERFLOW \<le> \<bar>1 / b ^ nat (- e)\<bar> then Inl OverflowError
      else Inr (1 / b ^ nat (- e)))"

section \<open>Amortization engine\<close>

text \<open>
  \<^verbatim>\<open>
  def amort_payment(principal, annual_rate, years):
      if principal <= 0 or years <= 0:
          return 0.0
      r = annual_rate / 12 / 100
      n = int(years * 12)
      if r == 0:
          return principal / n
      return principal * r * (1 + r)**n / ((1 + r)**n - 1)
  \<close>
\<close>

definition amort_payment :: "real \<Rightarrow> real \<Rightarrow> real \<Rightarrow> py_error + real" where
  "amort_payment princ annual_rate years =
     (if princ \<le> 0 \<or> years \<le> 0 then Inr 0
      else
        let r = annual_rate / 12 / 100;
            n = py_int (years * 12)
        in if r = 0 then py_div princ (of_int n)
           else (case py_pow (1 + r) n of
                   Inl e \<Rightarrow> Inl e
                 | Inr pw \<Rightarrow> py_div (princ * r * pw) (pw - 1)))"

text \<open>
  \<^verbatim>\<open>
  def loan_balance(principal, annual_rate, years, months_elapsed):
      pmt = amort_payment(principal, annual_rate, years)
      r = annual_rate / 12 / 100
      bal = principal
      for _ in range(months_elapsed):
          interest = bal * r
          principal_pay = pmt - interest
          bal = max(0, bal - principal_pay)
      return bal
  \<close>
  The loop body runs \<open>nat months_elapsed\<close> times (\<^verbatim>\<open>range\<close> of a negative number is
  empty); \<open>balance_loop\<close> is the loop with the number of remaining iterations.
\<close>

fun balance_loop :: "nat \<Rightarrow> real \<Rightarrow> real \<Rightarrow> real \<Rightarrow> real" where
  "balance_loop 0 pmt r bal = bal"
| "balance_loop (Suc k) pmt r bal =
     (let interest = bal * r;
          principal_pay = pmt - interest
      in balance_loop k pmt r (max 0 (bal - principal_pay)))"

definition loan_balance :: "real \<Rightarrow> real \<Rightarrow> real \<Rightarrow> int \<Rightarrow> py_error + real" where
  "loan_balance princ annual_rate years months_elapsed =
     (case amort_payment princ annual_rate years of
        Inl e \<Rightarrow> Inl e
      | Inr pmt \<Rightarrow>
          Inr (balance_loop (nat months_elapsed) pmt (annual_rate / 12 / 100) princ))"

section \<open>IRR solver\<close>

text \<open>
  \<^verbatim>\<open>
  def irr(cashflows, guess=0.08, tol=1e-6, max_iter=100):
      r = guess
      for _ in range(max_iter):
          npv = 0
          d_npv = 0
          for t, cf in enumerate(cashflows):
              denom = (1 + r) ** t
              npv += cf / denom
              if t > 0:
                  d_npv -= t * cf / ((1 + r) ** (t + 1))
          if abs(d_npv) < 1e-12:
              break
          new_r = r - npv / d_npv
          if abs(new_r - r) < tol:
              return new_r
          r = new_r
      return r
  \<close>
  \<open>npv_loop\<close> is the inner loop over \<^verbatim>\<open>enumerate(cashflows)\<close> with the two
  accumulators; both divisions raise when their divisor is zero. \<open>irr_loop\<close> is the
  outer loop with the number of remaining iterations.
\<close>

fun npv_loop :: "(nat \<times> real) list \<Rightarrow> real \<Rightarrow> real \<Rightarrow> real \<Rightarrow> py_error + (real \<times> real)" where
  "npv_loop [] r npv d_npv = Inr (npv, d_npv)"
| "npv_loop ((t, cf) # rest) r npv d_npv =
     (let denom = (1 + r) ^ t in
      if denom = 0 then Inl ZeroDivisionError
      else
        let npv' = npv + cf / denom in
        if t > 0 then
          (if (1 + r) ^ (t + 1) = 0 then Inl ZeroDivisionError
           else npv_loop rest r npv' (d_npv - of_nat t * cf / ((1 + r) ^ (t + 1))))
        else npv_loop rest r npv' d_npv)"

fun irr_loop :: "nat \<Rightarrow> real list \<Rightarrow> real \<Rightarrow> real \<Rightarrow> py_error + real" where
  "irr_loop 0 cashflows tol r = Inr r"
| "irr_loop (Suc k) cashflows tol r =
     (case npv_loop (enumerate 0 cashflows) r 0 0 of
        Inl e \<Rightarrow> Inl e
      | Inr (npv, d_npv) \<Rightarrow>
          if \<bar>d_npv\<bar> < 1 / 10 ^ 12 then Inr r
          else
            let new_r = r - npv / d_npv in
            if \<bar>new_r - r\<bar> < tol then Inr new_r
            else irr_loop k cashflows tol new_r)"

definition irr :: "real list \<Rightarrow> real \<Rightarrow> real \<Rightarrow> int \<Rightarrow> py_error + real" where
  "irr cashflows guess tol max_iter = irr_loop (nat max_iter) cashflows tol guess"

text \<open>The call \<^verbatim>\<open>irr(cashflows)\<close> with the default arguments of the signature.\<close>

definition irr_default :: "real list \<Rightarrow> py_error + real" where
  "irr_default cashflows = irr cashflows (8 / 100) (1 / 10 ^ 6) 100"

section \<open>Duty tables\<close>

text \<open>
  A tier width is a number or \<^verbatim>\<open>float("inf")\<close>; \<^verbatim>\<open>min(remaining, float("inf"))\<close>
  is \<^verbatim>\<open>remaining\<close>. The rates of the two tables are the decimal fractions their
  literals denote: they are multiplied only, never compared with an input.
\<close>

datatype tier_amt = Width real | Unbounded

fun min_tier :: "real \<Rightarrow> tier_amt \<Rightarrow> real" where
  "min_tier remaining (Width w) = min remaining w"
| "min_tier remaining Unbounded = remaining"

definition BSD_TIERS :: "(tier_amt \<times> real) list" where
  "BSD_TIERS =
     [(Width 180000, 1 / 100),
      (Width 180000, 2 / 100),
      (Width 640000, 3 / 100),
      (Width 500000, 4 / 100),
      (Width 1500000, 5 / 100),
      (Unbounded, 6 / 100)]"

definition ABSD_TABLE :: "string \<rightharpoonup> real list" where
  "ABSD_TABLE =
     map_of
       [(''SC'', [0, 20 / 100, 30 / 100]),
        (''PR'', [5 / 100, 30 / 100, 35 / 100]),
        (''Foreigner'', [60 / 100, 60 / 100, 60 / 100]),
        (''Entity'', [65 / 100, 65 / 100, 65 / 100]),
        (''Trust'', [65 / 100, 65 / 100, 65 / 100])]"

section \<open>Core functions\<close>

text \<open>
  \<^verbatim>\<open>
  def calc_bsd(amount):
      bsd = 0
      remaining = amount
      for tier_amt, rate in BSD_TIERS:
          take = min(remaining, tier_amt)
          bsd += take * rate
          remaining -= take
          if remaining <= 0:
              break
      return bsd
  \<close>
\<close>

fun bsd_loop :: "(tier_amt \<times> real) list \<Rightarrow> real \<Rightarrow> real \<Rightarrow> real" where
  "bsd_loop [] bsd remaining = bsd"
| "bsd_loop ((tier, rate) # tiers) bsd remaining =
     (let take = min_tier remaining tier;
          bsd' = bsd + take * rate;
          remaining' = remaining - take
      in if remaining' \<le> 0 then bsd' else bsd_loop tiers bsd' remaining')"

definition calc_bsd :: "real \<Rightarrow> real" where
  "calc_bsd amount = bsd_loop BSD_TIERS 0 amount"

text \<open>
  \<^verbatim>\<open>
  def calc_absd(amount, profile, count):
      if profile not in ABSD_TABLE:
          return 0
      idx = 0 if count == 0 else (1 if count == 1 else 2)
      return amount * ABSD_TABLE[profile][idx]
  \<close>
  Every row of the table has three entries, so the index is always in range.
\<close>

definition calc_absd :: "real \<Rightarrow> string \<Rightarrow> int \<Rightarrow> real" where
  "calc_absd amount profile count =
     (case ABSD_TABLE profile of
        None \<Rightarrow> 0
      | Some rates \<Rightarrow>
          let idx = (if count = 0 then 0 else (if count = 1 then 1 else 2))
          in amount * rates ! idx)"

text \<open>
  \<^verbatim>\<open>
  def calc_max_loan(income, debts, age, tenure, rate, property_type, loan_type):
      tdsr_cap = 0.55
      msr_cap = 0.30 if property_type in ("HDB", "EC") else 1.0
      stress_rate = rate + 3.0
      avail_tdsr = max(0, income * tdsr_cap - debts)
      avail_msr = income * msr_cap
      monthly_cap = min(avail_tdsr, avail_msr)
      r = stress_rate / 12 / 100
      n = int(tenure * 12)
      if r == 0:
          loan = monthly_cap * n
      else:
          loan = monthly_cap * ((1 + r) ** n - 1) / (r * (1 + r) ** n)
      return loan
  \<close>
  The locals \<^verbatim>\<open>msr_cap\<close>, \<^verbatim>\<open>avail_tdsr\<close>, \<^verbatim>\<open>avail_msr\<close> and \<^verbatim>\<open>monthly_cap\<close> are
  definitions of their own, so that statements can speak about them. The literal 0.55 is the
  double \<open>2476979795053773 / 2^52\<close>, a little above 55/100, and 0.30 is the double
  \<open>5404319552844595 / 2^54\<close>, a little below 30/100.
\<close>

definition tdsr_cap :: real where
  "tdsr_cap = 2476979795053773 / 4503599627370496"

definition msr_cap :: "string \<Rightarrow> real" where
  "msr_cap property_type =
     (if property_type \<in> {''HDB'', ''EC''} then 5404319552844595 / 18014398509481984 else 1)"

definition avail_tdsr :: "real \<Rightarrow> real \<Rightarrow> real" where
  "avail_tdsr income debts = max 0 (income * tdsr_cap - debts)"

definition avail_msr :: "real \<Rightarrow> string \<Rightarrow> real" where
  "avail_msr income property_type = income * msr_cap property_type"

definition monthly_cap :: "real \<Rightarrow> real \<Rightarrow> string \<Rightarrow> real" where
  "monthly_cap income debts property_type =
     min (avail_tdsr income debts) (avail_msr income property_type)"

definition calc_max_loan ::
  "real \<Rightarrow> real \<Rightarrow> int \<Rightarrow> real \<Rightarrow> real \<Rightarrow> string \<Rightarrow> string \<Rightarrow> py_error + real" where
  "calc_max_loan income debts age tenure rate property_type loan_type =
     (let stress_rate = rate + 3;
          cap = monthly_cap income debts property_type;
          r = stress_rate / 12 / 100;
          n = py_int (tenure * 12)
      in if r = 0 then Inr (cap * of_int n)
         else (case py_pow (1 + r) n of
                 Inl e \<Rightarrow> Inl e
               | Inr pw \<Rightarrow> py_div (cap * (pw - 1)) (r * pw)))"

text \<open>
  The factor of the \<^verbatim>\<open>else\<close> branch of \<^verbatim>\<open>calc_max_loan\<close>,
  \<^verbatim>\<open>((1 + r) ** n - 1) / (r * (1 + r) ** n)\<close>, under a name of its own for the
  statements below.
\<close>

definition annuity_factor :: "real \<Rightarrow> nat \<Rightarrow> real" where
  "annuity_factor r n = ((1 + r) ^ n - 1) / (r * (1 + r) ^ n)"

text \<open>
  The annuity inversion in the words of the specification, to compare \<^verbatim>\<open>calc_max_loan\<close>
  with: the loan is sized on one monthly capacity against the stress rate, quoted rate plus
  3 points, over \<open>n\<close> = tenure times 12 months: capacity times \<open>n\<close> when \<open>r = 0\<close>, else
  capacity times \<open>((1 + r)^n - 1) / (r * (1 + r)^n)\<close>.
\<close>

definition loan_for_capacity :: "real \<Rightarrow> real \<Rightarrow> real \<Rightarrow> py_error + real" where
  "loan_for_capacity capacity tenure rate =
     (let r = (rate + 3) / 12 / 100;
          n = py_int (tenure * 12)
      in if r = 0 then Inr (capacity * of_int n)
         else (case py_pow (1 + r) n of
                 Inl e \<Rightarrow> Inl e
               | Inr pw \<Rightarrow> py_div (capacity * (pw - 1)) (r * pw)))"

section \<open>Arithmetic helpers\<close>

lemma py_int_ge_one: "1 \<le> x \<Longrightarrow> 1 \<le> py_int x"
  by (simp add: py_int_def le_floor_iff)

lemma DBL_OVERFLOW_gt: "2 ^ 1023 < DBL_OVERFLOW"
proof -
  have "(2::real) ^ 1023 = 2 ^ 53 * 2 ^ 970" by (simp add: power_add [symmetric])
  also have "\<dots> < (2 ^ 54 - 1) * 2 ^ 970" by (rule mult_strict_right_mono) simp_all
  finally show ?thesis by (simp only: DBL_OVERFLOW_def)
qed

lemma py_pow_no_overflow:
  "0 \<le> e \<Longrightarrow> \<bar>b ^ nat e\<bar> < DBL_OVERFLOW \<Longrightarrow> py_pow b e = Inr (b ^ nat e)"
  by (simp add: py_pow_def)

lemma py_pow_nonneg_cases:
  "0 \<le> e \<Longrightarrow> py_pow b e = Inl OverflowError \<or> py_pow b e = Inr (b ^ nat e)"
  by (simp add: py_pow_def)

text \<open>A base of at most 2 in magnitude and an exponent of at most 1023 stay in range.\<close>

lemma py_pow_small:
  assumes "0 \<le> e" "e \<le> 1023" "\<bar>b\<bar> \<le> 2"
  shows "py_pow b e = Inr (b ^ nat e)"
proof -
  have "\<bar>b ^ nat e\<bar> = \<bar>b\<bar> ^ nat e" by (simp add: power_abs)
  also have "\<dots> \<le> 2 ^ nat e" using assms(3) by (simp add: power_mono)
  also have "\<dots> \<le> (2::real) ^ 1023" using assms(1,2) by (intro power_increasing) simp_all
  also have "\<dots> < DBL_OVERFLOW" by (rule DBL_OVERFLOW_gt)
  finally show ?thesis using assms(1) by (rule py_pow_no_overflow [rotated])
qed

lemma power_gt_one: "0 < (r::real) \<Longrightarrow> 1 \<le> n \<Longrightarrow> 1 < (1 + r) ^ nat n"
  by simp

section \<open>Buyer's stamp duty\<close>

text \<open>
  C1. \<^verbatim>\<open>calc_bsd\<close> reproduces the progressive tier table: the duty is 0 on 0, 1800 on
  180000 and 24600 = 180000 * 0.01 + 180000 * 0.02 + 640000 * 0.03 on 1000000; the table is
  [180000 at 1%, 180000 at 2%, 640000 at 3%, 500000 at 4%, 1500000 at 5%, unbounded at 6%];
  and the tiers are consumed in order: on a non-negative amount each tier is charged on the
  part of the amount that falls between its cumulative breakpoints.
\<close>

theorem calc_bsd_tier_table:
  "calc_bsd 0 = 0 \<and> calc_bsd 180000 = 1800 \<and> calc_bsd 1000000 = 24600
   \<and> calc_bsd 1000000 = 180000 * (1 / 100) + 180000 * (2 / 100) + 640000 * (3 / 100)
   \<and> BSD_TIERS =
        [(Width 180000, 1 / 100), (Width 180000, 2 / 100), (Width 640000, 3 / 100),
         (Width 500000, 4 / 100), (Width 1500000, 5 / 100), (Unbounded, 6 / 100)]
   \<and> (0 \<le> amount \<longrightarrow>
        calc_bsd amount =
            (1 / 100) * min amount 180000
          + (2 / 100) * min (max (amount - 180000) 0) 180000
          + (3 / 100) * min (max (amount - 360000) 0) 640000
          + (4 / 100) * min (max (amount - 1000000) 0) 500000
          + (5 / 100) * min (max (amount - 1500000) 0) 1500000
          + (6 / 100) * max (amount - 3000000) 0)"
proof -
  have fixed: "calc_bsd 0 = 0 \<and> calc_bsd 180000 = 1800 \<and> calc_bsd 1000000 = 24600"
    by (simp add: calc_bsd_def BSD_TIERS_def)
  have progressive: "calc_bsd amount =
            (1 / 100) * min amount 180000
          + (2 / 100) * min (max (amount - 180000) 0) 180000
          + (3 / 100) * min (max (amount - 360000) 0) 640000
          + (4 / 100) * min (max (amount - 1000000) 0) 500000
          + (5 / 100) * min (max (amount - 1500000) 0) 1500000
          + (6 / 100) * max (amount - 3000000) 0" if "0 \<le> amount"
    using that by (simp add: calc_bsd_def BSD_TIERS_def Let_def min_def max_def)
  show ?thesis using fixed progressive by (simp add: BSD_TIERS_def)
qed

theorem calc_bsd_tier_table_witness:
  "(0::real) \<le> 2000000 \<and> calc_bsd 2000000 = 69600"
  using calc_bsd_tier_table [of 2000000] by simp

section \<open>Additional buyer's stamp duty\<close>

text \<open>
  C7. \<^verbatim>\<open>calc_absd\<close> is the amount times the flat rate of the table for the profile
  and the bucket of the count: bucket 0 for count 0, bucket 1 for count 1, bucket 2 for every
  count of 2 or more; a profile that is not in the table gives 0. In particular the duty on
  1000000 is 0 for SC with no property, 600000 for Foreigner with no property and 650000 for
  Entity with 5 properties.
\<close>

theorem calc_absd_flat_rate:
  "(profile \<notin> dom ABSD_TABLE \<longrightarrow> calc_absd amount profile count = 0)
   \<and> (\<forall>rates. ABSD_TABLE profile = Some rates \<longrightarrow>
          (count = 0 \<longrightarrow> calc_absd amount profile count = amount * rates ! 0)
        \<and> (count = 1 \<longrightarrow> calc_absd amount profile count = amount * rates ! 1)
        \<and> (2 \<le> count \<longrightarrow> calc_absd amount profile count = amount * rates ! 2))
   \<and> dom ABSD_TABLE = {''SC'', ''PR'', ''Foreigner'', ''Entity'', ''Trust''}
   \<and> calc_absd 1000000 ''SC'' 0 = 0
   \<and> calc_absd 1000000 ''Foreigner'' 0 = 600000
   \<and> calc_absd 1000000 ''Entity'' 5 = 650000"
proof -
  have unknown: "calc_absd amount profile count = 0" if "profile \<notin> dom ABSD_TABLE"
    using that by (simp add: calc_absd_def domIff)
  have known: "(count = 0 \<longrightarrow> calc_absd amount profile count = amount * rates ! 0)
        \<and> (count = 1 \<longrightarrow> calc_absd amount profile count = amount * rates ! 1)
        \<and> (2 \<le> count \<longrightarrow> calc_absd amount profile count = amount * rates ! 2)"
    if "ABSD_TABLE profile = Some rates" for rates
    using that by (simp add: calc_absd_def)
  have keys: "dom ABSD_TABLE = {''SC'', ''PR'', ''Foreigner'', ''Entity'', ''Trust''}"
    by (auto simp add: ABSD_TABLE_def)
  have examples: "calc_absd 1000000 ''SC'' 0 = 0
      \<and> calc_absd 1000000 ''Foreigner'' 0 = 600000
      \<and> calc_absd 1000000 ''Entity'' 5 = 650000"
    by (simp add: calc_absd_def ABSD_TABLE_def)
  show ?thesis using unknown known keys examples by blast
qed

theorem calc_absd_flat_rate_witness:
  "''Company'' \<notin> dom ABSD_TABLE \<and> calc_absd 1000000 ''Company'' 3 = 0
   \<and> ABSD_TABLE ''PR'' = Some [5 / 100, 30 / 100, 35 / 100]
   \<and> calc_absd 1000000 ''PR'' 0 = 50000
   \<and> calc_absd 1000000 ''PR'' 1 = 300000
   \<and> (2::int) \<le> 7 \<and> calc_absd 1000000 ''PR'' 7 = 350000"
proof -
  have unknown: "''Company'' \<notin> dom ABSD_TABLE" by (simp add: ABSD_TABLE_def)
  have row: "ABSD_TABLE ''PR'' = Some [5 / 100, 30 / 100, 35 / 100]"
    by (simp add: ABSD_TABLE_def)
  show ?thesis
    using unknown row
      calc_absd_flat_rate [where profile = "''Company''" and amount = 1000000 and count = 3]
      calc_absd_flat_rate [where profile = "''PR''" and amount = 1000000 and count = 0]
      calc_absd_flat_rate [where profile = "''PR''" and amount = 1000000 and count = 1]
      calc_absd_flat_rate [where profile = "''PR''" and amount = 1000000 and count = 7]
    by simp
qed

section \<open>Monthly payment\<close>

lemma amort_payment_zero_rate:
  assumes "0 < princ" "1 \<le> years * 12"
  shows "amort_payment princ 0 years = Inr (princ / of_int (py_int (years * 12)))"
proof -
  have n: "1 \<le> py_int (years * 12)" using assms by (simp add: py_int_ge_one)
  have y: "0 < years" using assms by simp
  from n have "of_int (py_int (years * 12)) \<noteq> (0::real)" by simp
  then show ?thesis using assms y by (simp add: amort_payment_def py_div_def)
qed

lemma amort_payment_pos_rate:
  assumes "0 < princ" "0 < rate" "1 \<le> years * 12"
    and "(1 + rate / 12 / 100) ^ nat (py_int (years * 12)) < DBL_OVERFLOW"
  shows "amort_payment princ rate years =
     Inr (princ * (rate / 12 / 100) * (1 + rate / 12 / 100) ^ nat (py_int (years * 12))
          / ((1 + rate / 12 / 100) ^ nat (py_int (years * 12)) - 1))"
proof -
  have n: "1 \<le> py_int (years * 12)" using assms by (simp add: py_int_ge_one)
  have y: "0 < years" using assms by simp
  have r: "0 < rate / 12 / 100" using assms by simp
  have gt: "1 < (1 + rate / 12 / 100) ^ nat (py_int (years * 12))"
    using r n by (rule power_gt_one)
  then have "\<bar>(1 + rate / 12 / 100) ^ nat (py_int (years * 12))\<bar> < DBL_OVERFLOW"
    using assms(4) by simp
  then have pw: "py_pow (1 + rate / 12 / 100) (py_int (years * 12))
                   = Inr ((1 + rate / 12 / 100) ^ nat (py_int (years * 12)))"
    using n by (intro py_pow_no_overflow) simp_all
  from gt have "(1 + rate / 12 / 100) ^ nat (py_int (years * 12)) - 1 \<noteq> 0" by simp
  then show ?thesis using assms(1,2) y pw
    by (simp add: amort_payment_def py_div_def Let_def)
qed

text \<open>
  In exact arithmetic, and while the power stays in the range of doubles, the payment on a
  term of at least one month is strictly positive. On doubles the same inputs can raise:
  a rate so small that \<^verbatim>\<open>1 + r\<close> rounds to 1 makes \<^verbatim>\<open>(1 + r)**n - 1\<close> zero.
\<close>

lemma amort_payment_positive_exact:
  assumes "0 < princ" "0 \<le> rate" "1 \<le> years * 12"
    and "(1 + rate / 12 / 100) ^ nat (py_int (years * 12)) < DBL_OVERFLOW"
  shows "\<exists>pmt. amort_payment princ rate years = Inr pmt \<and> 0 < pmt"
proof (cases "rate = 0")
  case True
  have n: "1 \<le> py_int (years * 12)" using assms by (simp add: py_int_ge_one)
  then have "0 < princ / of_int (py_int (years * 12))" using assms by simp
  then show ?thesis using True amort_payment_zero_rate [OF assms(1) assms(3)] by simp
next
  case False
  then have rate: "0 < rate" using assms by simp
  have n: "1 \<le> py_int (years * 12)" using assms by (simp add: py_int_ge_one)
  have r: "0 < rate / 12 / 100" using rate by simp
  have pw: "1 < (1 + rate / 12 / 100) ^ nat (py_int (years * 12))"
    using r n by (rule power_gt_one)
  have "0 < princ * (rate / 12 / 100) * (1 + rate / 12 / 100) ^ nat (py_int (years * 12))
          / ((1 + rate / 12 / 100) ^ nat (py_int (years * 12)) - 1)"
    using assms(1) r pw by simp
  then show ?thesis using amort_payment_pos_rate [OF assms(1) rate assms(3) assms(4)] by simp
qed

text \<open>
  C2. The payment is claimed to be strictly positive and finite, with no division by zero
  reachable, for every principal > 0, rate >= 0 and years > 0, years not being required to
  be an integer. The code raises \<^verbatim>\<open>ZeroDivisionError\<close> on a term below one month:
  with principal 100000, rate 0 and years 0.05 the guard \<^verbatim>\<open>years <= 0\<close> is passed,
  \<^verbatim>\<open>n = int(0.05 * 12)\<close> is 0 and \<^verbatim>\<open>principal / n\<close> divides by zero; with rate 5 the
  divisor \<^verbatim>\<open>(1 + r)**0 - 1\<close> is zero.
\<close>

theorem amort_payment_raises_below_one_month:
  "(0::real) < 100000 \<and> (0::real) \<le> 0 \<and> (0::real) < 1 / 20
   \<and> py_int (1 / 20 * 12) = 0
   \<and> amort_payment 100000 0 (1 / 20) = Inl ZeroDivisionError
   \<and> amort_payment 100000 5 (1 / 20) = Inl ZeroDivisionError"
proof -
  have n: "py_int (1 / 20 * 12) = 0" by (simp add: py_int_def)
  have one: "\<not> DBL_OVERFLOW \<le> 1" using DBL_OVERFLOW_gt by simp
  have a: "amort_payment 100000 0 (1 / 20) = Inl ZeroDivisionError"
    using n by (simp add: amort_payment_def py_div_def)
  have b: "amort_payment 100000 5 (1 / 20) = Inl ZeroDivisionError"
    using n one by (simp add: amort_payment_def py_div_def py_pow_def)
  show ?thesis using n a b by simp
qed

section \<open>Remaining balance\<close>

text \<open>The loop, unrolled at its last iteration instead of its first.\<close>

lemma balance_loop_Suc_end:
  "balance_loop (Suc k) pmt r bal =
     max 0 (balance_loop k pmt r bal - (pmt - balance_loop k pmt r bal * r))"
proof (induction k arbitrary: bal)
  case 0
  show ?case by (simp add: Let_def)
next
  case (Suc k)
  have "balance_loop (Suc (Suc k)) pmt r bal =
          balance_loop (Suc k) pmt r (max 0 (bal - (pmt - bal * r)))"
    by (simp add: Let_def)
  also have "\<dots> = max 0 (balance_loop k pmt r (max 0 (bal - (pmt - bal * r)))
       - (pmt - balance_loop k pmt r (max 0 (bal - (pmt - bal * r))) * r))"
    by (rule Suc.IH)
  also have "balance_loop k pmt r (max 0 (bal - (pmt - bal * r))) = balance_loop (Suc k) pmt r bal"
    by (simp add: Let_def)
  finally show ?case .
qed






text \<open>A negative principal is returned as it is when no month has elapsed.\<close>

lemma loan_balance_negative_principal: "loan_balance (- 100) 12 30 0 = Inr (- 100)"
  by (simp add: loan_balance_def amort_payment_def)

section \<open>The balance in exact arithmetic\<close>

text \<open>
  The lemmas of this section hold of the exact model only: they show what the formulas do
  without rounding, on a term of at least one month and a power in the range of doubles.
  On doubles the payment can round below the interest of the first month (principal
  100000, rate 1500, years 5: the payment is 124999.99999999999, the interest 125000.0),
  and then the balance grows instead.
\<close>

lemma balance_loop_bounds:
  assumes "0 \<le> r" "bal0 * r \<le> pmt"
  shows "0 \<le> bal \<Longrightarrow> bal \<le> bal0 \<Longrightarrow>
     0 \<le> balance_loop k pmt r bal \<and> balance_loop k pmt r bal \<le> bal0"
proof (induction k arbitrary: bal)
  case 0
  then show ?case by simp
next
  case (Suc k)
  have "bal * r \<le> bal0 * r" using Suc.prems assms(1) by (simp add: mult_right_mono)
  then have "bal - (pmt - bal * r) \<le> bal" using assms(2) by simp
  then have "max 0 (bal - (pmt - bal * r)) \<le> bal0" using Suc.prems by simp
  moreover have "0 \<le> max 0 (bal - (pmt - bal * r))" by simp
  ultimately show ?case using Suc.IH by (simp add: Let_def)
qed

lemma balance_loop_step_le:
  assumes "0 \<le> r" "bal0 * r \<le> pmt" "0 \<le> bal0"
  shows "balance_loop (Suc k) pmt r bal0 \<le> balance_loop k pmt r bal0"
proof -
  let ?b = "balance_loop k pmt r bal0"
  have b: "0 \<le> ?b \<and> ?b \<le> bal0"
    using balance_loop_bounds [OF assms(1) assms(2), of bal0 k] assms(3) by simp
  then have "?b * r \<le> bal0 * r" using assms(1) by (simp add: mult_right_mono)
  then have "?b - (pmt - ?b * r) \<le> ?b" using assms(2) by simp
  then have "max 0 (?b - (pmt - ?b * r)) \<le> ?b" using b by simp
  then show ?thesis by (simp only: balance_loop_Suc_end)
qed

lemma amort_payment_covers_interest:
  assumes "0 \<le> princ" "0 \<le> rate" "1 \<le> years * 12"
    and "(1 + rate / 12 / 100) ^ nat (py_int (years * 12)) < DBL_OVERFLOW"
  shows "\<exists>pmt. amort_payment princ rate years = Inr pmt \<and> princ * (rate / 12 / 100) \<le> pmt"
proof (cases "princ = 0")
  case True
  then show ?thesis by (simp add: amort_payment_def)
next
  case False
  then have p: "0 < princ" using assms by simp
  show ?thesis
  proof (cases "rate = 0")
    case True
    have n: "1 \<le> py_int (years * 12)" using assms by (simp add: py_int_ge_one)
    then have "0 \<le> princ / of_int (py_int (years * 12))" using assms by simp
    then show ?thesis using True amort_payment_zero_rate [OF p assms(3)] by simp
  next
    case False
    then have rate: "0 < rate" using assms by simp
    have n: "1 \<le> py_int (years * 12)" using assms by (simp add: py_int_ge_one)
    define r where "r = rate / 12 / 100"
    have r: "0 < r" using rate by (simp add: r_def)
    define q where "q = (1 + r) ^ nat (py_int (years * 12))"
    have pw: "1 < q" unfolding q_def using r n by (rule power_gt_one)
    have "princ * r * (q - 1) \<le> princ * r * q"
      using p r by (simp add: mult_left_mono)
    then have "princ * r \<le> princ * r * q / (q - 1)"
      using pw by (simp add: pos_le_divide_eq)
    then show ?thesis using amort_payment_pos_rate [OF p rate assms(3) assms(4)]
      by (simp add: q_def r_def)
  qed
qed

lemma loan_balance_non_increasing_exact:
  assumes "0 \<le> princ" "0 \<le> rate" "1 \<le> years * 12"
    and "(1 + rate / 12 / 100) ^ nat (py_int (years * 12)) < DBL_OVERFLOW"
  shows "\<exists>b b'. loan_balance princ rate years m = Inr b
           \<and> loan_balance princ rate years (m + 1) = Inr b'
           \<and> b' \<le> b \<and> 0 \<le> b' \<and> 0 \<le> b"
proof -
  obtain pmt where pmt: "amort_payment princ rate years = Inr pmt"
      and cov: "princ * (rate / 12 / 100) \<le> pmt"
    using amort_payment_covers_interest [OF assms] by blast
  have r: "0 \<le> rate / 12 / 100" using assms by simp
  let ?B = "\<lambda>k. balance_loop k pmt (rate / 12 / 100) princ"
  have nonneg: "0 \<le> ?B k" for k
    using balance_loop_bounds [OF r cov, of princ k] assms(1) by simp
  have step: "?B (nat (m + 1)) \<le> ?B (nat m)"
  proof (cases "0 \<le> m")
    case True
    then have "nat (m + 1) = Suc (nat m)" by simp
    then show ?thesis using balance_loop_step_le [OF r cov assms(1), of "nat m"] by simp
  next
    case False
    then have "nat (m + 1) = 0" "nat m = 0" by simp_all
    then show ?thesis by simp
  qed
  show ?thesis using pmt step nonneg [of "nat m"] nonneg [of "nat (m + 1)"]
    by (simp add: loan_balance_def)
qed

text \<open>
  One step of the loop on a balance that is the present value of \<open>j + 1\<close> payments leaves
  the present value of \<open>j\<close> payments; \<open>G\<close> stands for the geometric sum of the first
  \<open>j\<close> powers of \<open>q = 1 + r\<close>.
\<close>

lemma annuity_step:
  assumes "0 < (q::real)"
  shows "pmt * (G + q ^ j) / q ^ Suc j - (pmt - pmt * (G + q ^ j) / q ^ Suc j * (q - 1))
           = pmt * G / q ^ j"
proof -
  have qj: "q ^ j \<noteq> 0" "q \<noteq> 0" using assms by simp_all
  then show ?thesis by (simp add: field_simps)
qed

lemma balance_loop_annuity:
  assumes "0 \<le> pmt" "0 < q"
  shows "balance_loop j pmt (q - 1) (pmt * (\<Sum>i<j. q ^ i) / q ^ j) = 0"
proof (induction j)
  case 0
  show ?case by simp
next
  case (Suc j)
  define G where "G = (\<Sum>i<j. q ^ i)"
  have G: "0 \<le> G" unfolding G_def using assms(2) by (simp add: sum_nonneg)
  have GS: "(\<Sum>i<Suc j. q ^ i) = G + q ^ j" by (simp add: G_def)
  have "0 \<le> pmt * G / q ^ j" using assms G by simp
  then have "max 0 (pmt * (G + q ^ j) / q ^ Suc j
               - (pmt - pmt * (G + q ^ j) / q ^ Suc j * (q - 1))) = pmt * G / q ^ j"
    by (simp only: annuity_step [OF assms(2)] max_def if_True)
  then have "balance_loop (Suc j) pmt (q - 1) (pmt * (G + q ^ j) / q ^ Suc j)
               = balance_loop j pmt (q - 1) (pmt * G / q ^ j)"
    by (simp only: balance_loop.simps Let_def)
  then show ?case using Suc.IH by (simp only: GS G_def)
qed

text \<open>The principal is the present value of the payments of the whole term.\<close>

lemma amort_payment_present_value:
  assumes "0 < princ" "0 \<le> rate" "1 \<le> years * 12"
    and "(1 + rate / 12 / 100) ^ nat (py_int (years * 12)) < DBL_OVERFLOW"
  shows "\<exists>pmt. amort_payment princ rate years = Inr pmt \<and> 0 \<le> pmt \<and>
           princ = pmt * (\<Sum>i<nat (py_int (years * 12)). (1 + rate / 12 / 100) ^ i)
                     / (1 + rate / 12 / 100) ^ nat (py_int (years * 12))"
proof (cases "rate = 0")
  case True
  have n: "1 \<le> py_int (years * 12)" using assms by (simp add: py_int_ge_one)
  then have "princ = princ / of_int (py_int (years * 12)) * of_int (py_int (years * 12))"
    by simp
  moreover have "0 \<le> princ / of_int (py_int (years * 12))" using n assms by simp
  ultimately show ?thesis
    using True n amort_payment_zero_rate [OF assms(1) assms(3)] by simp
next
  case False
  then have rate: "0 < rate" using assms by simp
  have n: "1 \<le> py_int (years * 12)" using assms by (simp add: py_int_ge_one)
  define r where "r = rate / 12 / 100"
  have r: "0 < r" using rate by (simp add: r_def)
  define k where "k = nat (py_int (years * 12))"
  define q where "q = (1 + r) ^ k"
  have pw: "1 < q" unfolding q_def k_def using r n by (rule power_gt_one)
  have G: "(\<Sum>i<k. (1 + r) ^ i) = (q - 1) / r"
    using r geometric_sum [of "1 + r" k] by (simp add: q_def)
  have pv: "princ = princ * r * q / (q - 1) * ((q - 1) / r) / q"
    using pw r by simp
  have nonneg: "0 \<le> princ * r * q / (q - 1)" using assms(1) r pw by simp
  have "amort_payment princ rate years = Inr (princ * r * q / (q - 1))"
    using amort_payment_pos_rate [OF assms(1) rate assms(3) assms(4)]
    by (simp add: q_def r_def k_def)
  then show ?thesis using pv nonneg G
    unfolding q_def [symmetric] r_def [symmetric] k_def [symmetric] by (simp add: q_def [symmetric])
qed

text \<open>
  The exact-arithmetic reading of C4: for principal > 0, rate >= 0 and a term of \<open>m\<close> whole
  months, \<open>of_int m = years * 12\<close> with years > 0, the balance after the full term is
  exactly 0. The tolerance C4 asks of the doubles is not a statement of this model: the
  residual of the code is its rounding error, which the reals do not have (after 360 months
  on 500000 at 3.5 the code returns 4.07e-09; on 100000 at the rate 1500 over 60 months it
  returns 15263383198.33).
\<close>

lemma loan_balance_fully_amortized_exact:
  assumes "0 < princ" "0 \<le> rate" "0 < years" "of_int m = years * 12"
    and "(1 + rate / 12 / 100) ^ nat m < DBL_OVERFLOW"
  shows "loan_balance princ rate years m = Inr 0"
proof -
  have "(0::real) < of_int m" using assms by simp
  then have m: "1 \<le> m" by simp
  then have "(1::real) \<le> of_int m" by simp
  then have y: "1 \<le> years * 12" using assms(4) by simp
  have n: "py_int (years * 12) = m" using assms(4) [symmetric] m by (simp add: py_int_def)
  have range: "(1 + rate / 12 / 100) ^ nat (py_int (years * 12)) < DBL_OVERFLOW"
    using assms(5) by (simp only: n)
  obtain pmt where pmt: "amort_payment princ rate years = Inr pmt" and nonneg: "0 \<le> pmt"
    and pv: "princ = pmt * (\<Sum>i<nat m. (1 + rate / 12 / 100) ^ i) / (1 + rate / 12 / 100) ^ nat m"
    using amort_payment_present_value [OF assms(1) assms(2) y range] unfolding n by blast
  have q: "0 < 1 + rate / 12 / 100" using assms(2) by simp
  have "balance_loop (nat m) pmt (1 + rate / 12 / 100 - 1)
          (pmt * (\<Sum>i<nat m. (1 + rate / 12 / 100) ^ i) / (1 + rate / 12 / 100) ^ nat m) = 0"
    by (rule balance_loop_annuity [OF nonneg q])
  then have "balance_loop (nat m) pmt (rate / 12 / 100) princ = 0"
    using pv by simp
  then show ?thesis using pmt by (simp add: loan_balance_def)
qed

section \<open>Loan eligibility\<close>

lemma tdsr_cap_bounds: "55 / 100 < tdsr_cap" "tdsr_cap < 1"
  by (simp_all add: tdsr_cap_def)

lemma msr_cap_bounds: "0 \<le> msr_cap property_type" "msr_cap property_type \<le> 1"
  by (simp_all add: msr_cap_def)

lemma annuity_factor_nonneg:
  assumes "0 < r"
  shows "0 \<le> annuity_factor r n"
proof -
  have "1 \<le> (1 + r) ^ n" using assms by simp
  then show ?thesis using assms by (simp add: annuity_factor_def)
qed

lemma stress_rate_pos: "0 \<le> rate \<Longrightarrow> 0 < (rate + 3) / 12 / (100::real)"
  by simp

text \<open>The function is the annuity inversion of the specification on its monthly capacity.\<close>

lemma calc_max_loan_loan_for_capacity:
  "calc_max_loan income debts age tenure rate property_type loan_type =
     loan_for_capacity (monthly_cap income debts property_type) tenure rate"
  by (simp add: calc_max_loan_def loan_for_capacity_def Let_def)

text \<open>
  On non-negative tenure and rate the \<^verbatim>\<open>else\<close> branch is taken; it raises nothing but
  the overflow of the power.
\<close>

lemma loan_for_capacity_cases:
  assumes "0 \<le> tenure" "0 \<le> rate"
  shows "loan_for_capacity capacity tenure rate = Inl OverflowError
     \<or> loan_for_capacity capacity tenure rate =
         Inr (capacity * annuity_factor ((rate + 3) / 12 / 100) (nat (py_int (tenure * 12))))"
proof -
  define r where "r = (rate + 3) / 12 / 100"
  have r: "0 < r" using assms by (simp add: r_def)
  have n: "0 \<le> py_int (tenure * 12)" using assms by (simp add: py_int_def)
  define q where "q = (1 + r) ^ nat (py_int (tenure * 12))"
  have q: "1 \<le> q" unfolding q_def using r by simp
  then have d: "r * q \<noteq> 0" using r by simp
  have "py_pow (1 + r) (py_int (tenure * 12)) = Inl OverflowError
        \<or> py_pow (1 + r) (py_int (tenure * 12)) = Inr q"
    unfolding q_def using n by (rule py_pow_nonneg_cases)
  then have main: "loan_for_capacity capacity tenure rate = Inl OverflowError
     \<or> loan_for_capacity capacity tenure rate = Inr (capacity * (q - 1) / (r * q))"
    using r d unfolding r_def
    by (auto simp add: loan_for_capacity_def Let_def py_div_def)
  have e: "capacity * (q - 1) / (r * q) = capacity * annuity_factor r (nat (py_int (tenure * 12)))"
    by (simp add: annuity_factor_def q_def)
  from main have "loan_for_capacity capacity tenure rate = Inl OverflowError
     \<or> loan_for_capacity capacity tenure rate
          = Inr (capacity * annuity_factor r (nat (py_int (tenure * 12))))"
    by (simp only: e)
  then show ?thesis by (simp only: r_def)
qed

text \<open>Within the ranges of the sidebar, tenure up to 35 years and rate up to 15, it returns.\<close>

lemma loan_for_capacity_returns:
  assumes "0 \<le> tenure" "tenure \<le> 35" "0 \<le> rate" "rate \<le> 15"
  shows "loan_for_capacity capacity tenure rate =
         Inr (capacity * annuity_factor ((rate + 3) / 12 / 100) (nat (py_int (tenure * 12))))"
proof -
  define r where "r = (rate + 3) / 12 / 100"
  have r: "0 < r" "\<bar>1 + r\<bar> \<le> 2" using assms by (simp_all add: r_def)
  have n: "0 \<le> py_int (tenure * 12)" using assms by (simp add: py_int_def)
  have "tenure * 12 \<le> 420" using assms by simp
  then have "\<lfloor>tenure * 12\<rfloor> \<le> 420" by (simp add: floor_le_iff)
  then have n': "py_int (tenure * 12) \<le> 1023" using assms(1) by (simp add: py_int_def)
  define q where "q = (1 + r) ^ nat (py_int (tenure * 12))"
  have q: "1 \<le> q" unfolding q_def using r by simp
  then have d: "r * q \<noteq> 0" using r by simp
  have "py_pow (1 + r) (py_int (tenure * 12)) = Inr q"
    unfolding q_def using n n' r(2) by (rule py_pow_small)
  then have main: "loan_for_capacity capacity tenure rate = Inr (capacity * (q - 1) / (r * q))"
    using r d unfolding r_def
    by (simp add: loan_for_capacity_def Let_def py_div_def)
  have e: "capacity * (q - 1) / (r * q) = capacity * annuity_factor r (nat (py_int (tenure * 12)))"
    by (simp add: annuity_factor_def q_def)
  from main have "loan_for_capacity capacity tenure rate
          = Inr (capacity * annuity_factor r (nat (py_int (tenure * 12))))"
    by (simp only: e)
  then show ?thesis by (simp only: r_def)
qed

lemma monthly_cap_nonneg: "0 \<le> income \<Longrightarrow> 0 \<le> monthly_cap income debts property_type"
  by (simp add: monthly_cap_def avail_tdsr_def avail_msr_def msr_cap_bounds)

lemma monthly_cap_zero:
  "0 \<le> income \<Longrightarrow> income * tdsr_cap \<le> debts \<Longrightarrow> monthly_cap income debts property_type = 0"
  by (simp add: monthly_cap_def avail_tdsr_def avail_msr_def msr_cap_bounds)

lemma monthly_cap_private:
  assumes "0 \<le> income" "0 \<le> debts"
  shows "monthly_cap income debts ''Private'' = avail_tdsr income debts"
proof -
  have "income * tdsr_cap \<le> income * 1"
    using assms(1) tdsr_cap_bounds(2) by (intro mult_left_mono) simp_all
  then have "income * tdsr_cap - debts \<le> income" using assms(2) by simp
  then show ?thesis using assms(1)
    by (simp add: monthly_cap_def avail_tdsr_def avail_msr_def msr_cap_def)
qed

lemma monthly_cap_hdb_le:
  assumes "0 \<le> income"
  shows "monthly_cap income debts ''HDB'' \<le> monthly_cap income debts ''Private''"
proof -
  have "income * msr_cap ''HDB'' \<le> income * 1"
    using assms msr_cap_bounds(2) by (intro mult_left_mono) simp_all
  then have "avail_msr income ''HDB'' \<le> avail_msr income ''Private''"
    by (simp add: avail_msr_def msr_cap_def)
  then show ?thesis by (simp add: monthly_cap_def min_le_iff_disj)
qed

text \<open>
  C8. The age and the loan type do not alter the computation: with all other arguments
  equal, any two ages and any two loan types give the same result of
  \<^verbatim>\<open>calc_max_loan\<close>.
\<close>

theorem calc_max_loan_age_loan_type_inert:
  "calc_max_loan income debts age1 tenure rate property_type lt1 =
   calc_max_loan income debts age2 tenure rate property_type lt2"
  by (simp add: calc_max_loan_def)

text \<open>
  C9, as the code has it. For non-negative income, debts, tenure and rate,
  \<^verbatim>\<open>calc_max_loan\<close> never returns a negative loan: it returns a loan that is not negative,
  or the power overflows. When the room \<^verbatim>\<open>income * tdsr_cap - debts\<close> is not positive,
  \<^verbatim>\<open>tdsr_cap\<close> being the double 0.55, the TDSR capacity is clamped to 0 and a returned
  loan is exactly 0. Within the ranges of the sidebar (tenure up to 35, rate up to 15) a
  loan is returned.
\<close>

theorem calc_max_loan_nonneg:
  assumes "0 \<le> income" "0 \<le> debts" "0 \<le> tenure" "0 \<le> rate"
  shows "(calc_max_loan income debts age tenure rate property_type loan_type = Inl OverflowError
           \<or> (\<exists>loan. calc_max_loan income debts age tenure rate property_type loan_type = Inr loan
                 \<and> \<not> loan < 0))
     \<and> (income * tdsr_cap \<le> debts \<longrightarrow>
          avail_tdsr income debts = 0
          \<and> (calc_max_loan income debts age tenure rate property_type loan_type = Inl OverflowError
               \<or> calc_max_loan income debts age tenure rate property_type loan_type = Inr 0))
     \<and> (tenure \<le> 35 \<and> rate \<le> 15 \<longrightarrow>
          (\<exists>loan. calc_max_loan income debts age tenure rate property_type loan_type = Inr loan))"
proof -
  let ?cap = "monthly_cap income debts property_type"
  let ?f = "annuity_factor ((rate + 3) / 12 / 100) (nat (py_int (tenure * 12)))"
  let ?loan = "calc_max_loan income debts age tenure rate property_type loan_type"
  have cases: "?loan = Inl OverflowError \<or> ?loan = Inr (?cap * ?f)"
    using loan_for_capacity_cases [OF assms(3) assms(4), of ?cap]
    by (simp only: calc_max_loan_loan_for_capacity)
  have factor: "0 \<le> ?f" using stress_rate_pos [OF assms(4)] by (rule annuity_factor_nonneg)
  have cap: "0 \<le> ?cap" using assms(1) by (rule monthly_cap_nonneg)
  have "\<not> ?cap * ?f < 0" using cap factor by (simp add: not_less)
  then have a: "?loan = Inl OverflowError \<or> (\<exists>loan. ?loan = Inr loan \<and> \<not> loan < 0)"
    using cases by blast
  have b: "avail_tdsr income debts = 0 \<and> (?loan = Inl OverflowError \<or> ?loan = Inr 0)"
    if clamp: "income * tdsr_cap \<le> debts"
  proof -
    have "?cap = 0" using assms(1) clamp by (rule monthly_cap_zero)
    then have "?loan = Inl OverflowError \<or> ?loan = Inr 0" using cases by simp
    moreover have "avail_tdsr income debts = 0" using clamp by (simp add: avail_tdsr_def)
    ultimately show ?thesis by simp
  qed
  have c: "\<exists>loan. ?loan = Inr loan" if "tenure \<le> 35 \<and> rate \<le> 15"
  proof -
    have "?loan = Inr (?cap * ?f)"
      using that loan_for_capacity_returns [OF assms(3) _ assms(4), of ?cap]
      by (simp only: calc_max_loan_loan_for_capacity)
    then show ?thesis by blast
  qed
  show ?thesis using a b c by blast
qed

theorem calc_max_loan_nonneg_witness:
  "(0::real) \<le> 10000 \<and> (0::real) \<le> 6000 \<and> (0::real) \<le> 30 \<and> (0::real) \<le> 7 / 2
   \<and> 10000 * tdsr_cap \<le> 6000 \<and> (30::real) \<le> 35 \<and> (7 / 2 :: real) \<le> 15
   \<and> avail_tdsr 10000 6000 = 0
   \<and> calc_max_loan 10000 6000 35 30 (7 / 2) ''HDB'' ''Bank'' = Inr 0"
proof -
  have clamp: "10000 * tdsr_cap \<le> 6000" by (simp add: tdsr_cap_def)
  show ?thesis
    using clamp calc_max_loan_nonneg [of 10000 6000 30 "7 / 2" 35 "''HDB''" "''Bank''"]
    by auto
qed

text \<open>
  C9 as stated fails at debts of exactly 55% of the income: the double 0.55 is above 55/100,
  so with income 12000 and debts 6600 the room 12000 * 0.55 - 6600 is positive, the capacity
  is not clamped and the loan is not 0. (The code rounds the product to 6600.000000000001
  and returns the loan 1.05e-11 for one year at 3.5; the exact product gives a room of
  5.3e-13. Both are above 0.)
\<close>

theorem calc_max_loan_boundary_counterexample:
  "(0::real) \<le> 12000 \<and> (0::real) \<le> 6600 \<and> (0::real) \<le> 1 \<and> (0::real) \<le> 7 / 2
   \<and> (12000::real) * (55 / 100) \<le> 6600
   \<and> 0 < avail_tdsr 12000 6600
   \<and> \<not> isl (calc_max_loan 12000 6600 35 1 (7 / 2) ''Private'' ''Bank'')
   \<and> 0 < projr (calc_max_loan 12000 6600 35 1 (7 / 2) ''Private'' ''Bank'')"
proof -
  have room: "0 < avail_tdsr 12000 6600" by (simp add: avail_tdsr_def tdsr_cap_def)
  have "1 < (1 + 13 / 2400 :: real) ^ 12" by (rule one_less_power) simp_all
  then have factor: "0 < annuity_factor (13 / 2400) 12" by (simp add: annuity_factor_def)
  have priv: "monthly_cap 12000 6600 ''Private'' = avail_tdsr 12000 6600"
    by (rule monthly_cap_private) simp_all
  have n: "nat (py_int (1 * 12)) = 12" by (simp add: py_int_def)
  have "loan_for_capacity (avail_tdsr 12000 6600) 1 (7 / 2)
          = Inr (avail_tdsr 12000 6600 * annuity_factor ((7 / 2 + 3) / 12 / 100) (nat (py_int (1 * 12))))"
    by (rule loan_for_capacity_returns) simp_all
  then have loan: "calc_max_loan 12000 6600 35 1 (7 / 2) ''Private'' ''Bank''
        = Inr (avail_tdsr 12000 6600 * annuity_factor (13 / 2400) 12)"
    using priv n by (simp add: calc_max_loan_loan_for_capacity)
  have "0 < avail_tdsr 12000 6600 * annuity_factor (13 / 2400) 12"
    using room factor by simp
  then show ?thesis using room loan by simp
qed

text \<open>
  C5. For the inputs the caller supplies (income and debts not negative, tenure between 0
  and 35 years, rate between 0 and 15) and identical age and loan type: with property type
  Private the loan is bound by the TDSR capacity alone, the monthly capacity is
  \<^verbatim>\<open>max(0, income * 0.55 - debts)\<close> (the cap of 1.0 * income does not bind) and the loan
  is the annuity inversion of that capacity; and the loan for HDB is at most the loan for
  Private.
\<close>

theorem calc_max_loan_private_tdsr_only:
  assumes "0 \<le> income" "0 \<le> debts" "0 \<le> tenure" "tenure \<le> 35" "0 \<le> rate" "rate \<le> 15"
  shows "monthly_cap income debts ''Private'' = max 0 (income * tdsr_cap - debts)
     \<and> calc_max_loan income debts age tenure rate ''Private'' loan_type
         = loan_for_capacity (max 0 (income * tdsr_cap - debts)) tenure rate
     \<and> (\<exists>hdb private. calc_max_loan income debts age tenure rate ''HDB'' loan_type = Inr hdb
           \<and> calc_max_loan income debts age tenure rate ''Private'' loan_type = Inr private
           \<and> hdb \<le> private)"
proof -
  let ?f = "annuity_factor ((rate + 3) / 12 / 100) (nat (py_int (tenure * 12)))"
  have cap: "monthly_cap income debts ''Private'' = max 0 (income * tdsr_cap - debts)"
    using monthly_cap_private [OF assms(1) assms(2)] by (simp add: avail_tdsr_def)
  then have sized: "calc_max_loan income debts age tenure rate ''Private'' loan_type
         = loan_for_capacity (max 0 (income * tdsr_cap - debts)) tenure rate"
    by (simp add: calc_max_loan_loan_for_capacity)
  have h: "calc_max_loan income debts age tenure rate ''HDB'' loan_type
             = Inr (monthly_cap income debts ''HDB'' * ?f)"
    using loan_for_capacity_returns [OF assms(3) assms(4) assms(5) assms(6)]
    by (simp only: calc_max_loan_loan_for_capacity)
  have p: "calc_max_loan income debts age tenure rate ''Private'' loan_type
             = Inr (monthly_cap income debts ''Private'' * ?f)"
    using loan_for_capacity_returns [OF assms(3) assms(4) assms(5) assms(6)]
    by (simp only: calc_max_loan_loan_for_capacity)
  have factor: "0 \<le> ?f" using stress_rate_pos [OF assms(5)] by (rule annuity_factor_nonneg)
  have "monthly_cap income debts ''HDB'' * ?f \<le> monthly_cap income debts ''Private'' * ?f"
    using monthly_cap_hdb_le [OF assms(1), of debts] factor by (rule mult_right_mono)
  then show ?thesis using cap sized h p by blast
qed

theorem calc_max_loan_private_tdsr_only_witness:
  "(0::real) \<le> 12000 \<and> (0::real) \<le> 0 \<and> (0::real) \<le> 30 \<and> (30::real) \<le> 35
   \<and> (0::real) \<le> 7 / 2 \<and> (7 / 2 :: real) \<le> 15
   \<and> monthly_cap 12000 0 ''Private'' = max 0 (12000 * tdsr_cap - 0)
   \<and> calc_max_loan 12000 0 35 30 (7 / 2) ''Private'' ''Bank''
        = loan_for_capacity (max 0 (12000 * tdsr_cap - 0)) 30 (7 / 2)
   \<and> (\<exists>hdb private. calc_max_loan 12000 0 35 30 (7 / 2) ''HDB'' ''Bank'' = Inr hdb
          \<and> calc_max_loan 12000 0 35 30 (7 / 2) ''Private'' ''Bank'' = Inr private
          \<and> hdb \<le> private)"
proof -
  have inst: "monthly_cap 12000 0 ''Private'' = max 0 (12000 * tdsr_cap - 0)
   \<and> calc_max_loan 12000 0 35 30 (7 / 2) ''Private'' ''Bank''
        = loan_for_capacity (max 0 (12000 * tdsr_cap - 0)) 30 (7 / 2)
   \<and> (\<exists>hdb private. calc_max_loan 12000 0 35 30 (7 / 2) ''HDB'' ''Bank'' = Inr hdb
          \<and> calc_max_loan 12000 0 35 30 (7 / 2) ''Private'' ''Bank'' = Inr private
          \<and> hdb \<le> private)"
    by (rule calc_max_loan_private_tdsr_only) simp_all
  have range: "(0::real) \<le> 12000 \<and> (0::real) \<le> 0 \<and> (0::real) \<le> 30 \<and> (30::real) \<le> 35
   \<and> (0::real) \<le> 7 / 2 \<and> (7 / 2 :: real) \<le> 15"
    by simp
  show ?thesis using range inst by blast
qed

section \<open>IRR solver: returns and failures\<close>

text \<open>
  The powers of the inner loop are exact here, their overflow is not represented. The inner
  loop then raises nothing at a rate other than -1.
\<close>

lemma npv_loop_ok:
  assumes "1 + r \<noteq> 0"
  shows "\<exists>npv' d'. npv_loop tcs r npv d_npv = Inr (npv', d')"
proof (induction tcs arbitrary: npv d_npv)
  case Nil
  show ?case by simp
next
  case (Cons tc tcs)
  obtain t cf where tc: "tc = (t, cf)" by (cases tc)
  show ?case using assms Cons.IH by (simp add: tc Let_def)
qed

lemma npv_loop_first:
  "npv_loop ((0, cf) # tcs) r npv d_npv = npv_loop tcs r (npv + cf) d_npv"
  by (simp add: Let_def)

lemma npv_loop_raises:
  assumes "1 + r = 0" "0 < t"
  shows "npv_loop ((t, cf) # tcs) r npv d_npv = Inl ZeroDivisionError"
  using assms by (simp add: Let_def)

text \<open>
  It raises exactly at the rate -1 on a series of two or more cash flows: the flow at
  \<open>t = 1\<close> is divided by \<open>(1 + r) ^ 1 = 0\<close>.
\<close>

lemma npv_loop_enumerate_fails_iff:
  "(\<exists>e. npv_loop (enumerate 0 cashflows) r 0 0 = Inl e) \<longleftrightarrow>
     1 + r = 0 \<and> 2 \<le> length cashflows"
proof (cases "1 + r = 0")
  case False
  then show ?thesis using npv_loop_ok [OF False, of "enumerate 0 cashflows" 0 0] by auto
next
  case True
  show ?thesis
  proof (cases cashflows)
    case Nil
    then show ?thesis by simp
  next
    case (Cons c cs)
    show ?thesis
    proof (cases cs)
      case Nil
      then show ?thesis using Cons by (simp add: Let_def)
    next
      case (Cons c' cs')
      have e: "enumerate 0 cashflows = (0, c) # (Suc 0, c') # enumerate (Suc (Suc 0)) cs'"
        using Cons \<open>cashflows = c # cs\<close> by simp
      have "npv_loop (enumerate 0 cashflows) r 0 0
              = npv_loop ((Suc 0, c') # enumerate (Suc (Suc 0)) cs') r (0 + c) 0"
        by (simp only: e npv_loop_first)
      also have "\<dots> = Inl ZeroDivisionError" using True by (rule npv_loop_raises) simp
      finally show ?thesis using True Cons \<open>cashflows = c # cs\<close> by simp
    qed
  qed
qed

lemma irr_loop_error_needs_two_flows:
  "irr_loop k cashflows tol r = Inl e \<Longrightarrow> 2 \<le> length cashflows"
proof (induction k arbitrary: r)
  case 0
  then show ?case by simp
next
  case (Suc k)
  show ?case
  proof (cases "npv_loop (enumerate 0 cashflows) r 0 0")
    case (Inl e')
    then show ?thesis using npv_loop_enumerate_fails_iff [of cashflows r] by blast
  next
    case (Inr p)
    obtain npv d where p: "p = (npv, d)" by (cases p)
    from Suc.prems Inr p have "irr_loop k cashflows tol (r - npv / d) = Inl e"
      by (simp add: Let_def split: if_splits)
    then show ?thesis by (rule Suc.IH)
  qed
qed

text \<open>
  The returns the solver does make: a single cash flow gives the guess back; a derivative
  below 1e-12 gives the current rate back; on the last iteration of the budget the newly
  computed rate is given back whether or not the tolerance is met.
\<close>

lemma irr_single_cashflow: "irr [cf] guess tol max_iter = Inr guess"
  by (cases "nat max_iter") (simp_all add: irr_def enumerate_eq_zip)

lemma irr_small_derivative:
  "npv_loop (enumerate 0 cashflows) r 0 0 = Inr (npv, d_npv) \<Longrightarrow> \<bar>d_npv\<bar> < 1 / 10 ^ 12
     \<Longrightarrow> irr_loop (Suc k) cashflows tol r = Inr r"
  by simp

lemma irr_last_iteration:
  "npv_loop (enumerate 0 cashflows) r 0 0 = Inr (npv, d_npv) \<Longrightarrow> \<not> \<bar>d_npv\<bar> < 1 / 10 ^ 12
     \<Longrightarrow> irr_loop (Suc 0) cashflows tol r = Inr (r - npv / d_npv)"
  by (simp add: Let_def)

text \<open>
  C6. The solver is claimed never to signal failure. The call \<^verbatim>\<open>irr([-50, 27])\<close> with
  the default arguments does: the first Newton step from 0.08 lands on the rate -1
  (NPV -25, derivative -27 / 1.08^2, step 1.08, above the tolerance), and the second
  iteration divides the cash flow 27 by \<open>(1 + r) ^ 1 = 0\<close>, which raises
  \<^verbatim>\<open>ZeroDivisionError\<close>.
\<close>

theorem irr_raises_at_rate_minus_one:
  "irr_default [- 50, 27] = Inl ZeroDivisionError"
  by (simp add: irr_default_def irr_def enumerate_eq_zip eval_nat_numeral Let_def)

text \<open>
  C10. On the empty series \<^verbatim>\<open>irr\<close> raises nothing and does not loop: the two
  accumulators of the first iteration stay 0, the near-zero-derivative exit is taken, and
  the guess is returned unchanged, 0.08 with the default arguments.
\<close>

theorem irr_empty_series:
  "irr [] guess tol max_iter = Inr guess
   \<and> irr_default [] = Inr (8 / 100)
   \<and> npv_loop (enumerate 0 []) r 0 0 = Inr (0, 0)"
proof -
  have "irr [] g tol' it = Inr g" for g tol' it
    by (cases "nat it") (simp_all add: irr_def)
  then show ?thesis by (simp add: irr_default_def)
qed

end
